theory Spec2Isabelle
  imports Complex_Main
begin

section \<open>Numbers, objects and parameters\<close>

text \<open>
  The dashboard is TypeScript; every numeric value is a JavaScript \<open>number\<close>, an
  IEEE-754 double. A number is modelled by the real number it denotes. The cost
  formulas and the order book arithmetic are read over the reals, with \<open>+\<close>,
  \<open>*\<close> and \<open>/\<close> exact. The maker and taker shares are read in double
  arithmetic, every operation rounded by \<open>fl\<close> below: their cap is the literal
  \<open>0.9\<close>, which is not a double, and what the program stores at the cap is
  decided by that rounding. Infinities, \<open>NaN\<close> and overflow are outside the model;
  the one place where the source tests for \<open>NaN\<close> (the result of \<open>parseFloat\<close>
  in the parameter form) has a type of its own.
\<close>

subsection \<open>Rounding to a double\<close>

text \<open>
  \<open>rne\<close> rounds a real to the nearest integer, a tie going to the even neighbour.
\<close>

definition rne :: "real \<Rightarrow> int" where
  "rne y =
     (let f = \<lfloor>y\<rfloor>; d = y - of_int f
      in if d < 1 / 2 then f
         else if 1 / 2 < d then f + 1
         else if even f then f else f + 1)"

text \<open>
  A double has 53 significant bits: in the binade from \<open>2 powi (k + 52)\<close> up to
  \<open>2 powi (k + 53)\<close> the doubles are the multiples of \<open>2 powi k\<close>. The smallest
  spacing is \<open>2 powi (- 1074)\<close>, which also serves the subnormal numbers, and the
  largest is \<open>2 powi 971\<close>. \<open>qexp x\<close> is the exponent \<open>k\<close> of the spacing at
  \<open>x\<close>, found by going up from the smallest.
\<close>

fun qexp_from :: "nat \<Rightarrow> int \<Rightarrow> real \<Rightarrow> int" where
  "qexp_from 0 k x = k"
| "qexp_from (Suc n) k x = (if \<bar>x\<bar> < 2 powi (k + 53) then k else qexp_from n (k + 1) x)"

definition qexp :: "real \<Rightarrow> int" where
  "qexp x = qexp_from 2045 (- 1074) x"

text \<open>
  \<open>fl x\<close> is the double nearest to \<open>x\<close>, ties to even: the value of a decimal
  literal, and the result of an arithmetic operation whose exact result is \<open>x\<close>.
  It is the double the program has as long as \<open>x\<close> is no larger in absolute
  value than the largest double, \<open>2 powi 1024 - 2 powi 971\<close>.
\<close>

definition fl :: "real \<Rightarrow> real" where
  "fl x = of_int (rne (x / 2 powi qexp x)) * 2 powi qexp x"

subsection \<open>Parameters and objects\<close>

datatype parsed = NotANumber | Number real

text \<open>
  \<open>SimulationParameters\<close> as \<open>ParameterControls\<close> declares it:
  \<open>{ orderSize: number; volatility: number; feeTier: string }\<close>.
\<close>

record SimulationParameters =
  orderSize :: real
  volatility :: real
  feeTier :: string

text \<open>
  An object literal is a list of properties in the order written; reading a property
  that the object does not have gives \<open>undefined\<close>, here \<open>None\<close>.
\<close>

datatype jsvalue = JNumber real | JObject "(string \<times> jsvalue) list"

fun getProp :: "jsvalue \<Rightarrow> string \<Rightarrow> jsvalue option" where
  "getProp (JNumber x) k = None"
| "getProp (JObject ps) k = map_of ps k"

text \<open>\<open>Object.keys\<close>: the names of the properties an object has.\<close>

fun propertyNames :: "jsvalue \<Rightarrow> string list" where
  "propertyNames (JNumber x) = []"
| "propertyNames (JObject ps) = map fst ps"

fun getPath :: "jsvalue \<Rightarrow> string list \<Rightarrow> jsvalue option" where
  "getPath v [] = Some v"
| "getPath v (k # ks) = (case getProp v k of None \<Rightarrow> None | Some w \<Rightarrow> getPath w ks)"

section \<open>The parameter form: \<open>handleSubmit\<close> of \<open>ParameterControls\<close>\<close>

text \<open>
  \<open>handleSubmit\<close> clears the error, parses the order size text with \<open>parseFloat\<close>
  and runs three checks in order; each failing check sets its message and returns
  without calling \<open>onSubmit\<close>. The model starts from the value \<open>parseFloat\<close>
  returned (\<open>parsedOrderSize\<close>), the slider's \<open>volatility\<close> and the selected
  \<open>feeTier\<close>. \<open>Inl\<close> carries the message given to \<open>setError\<close>, \<open>Inr\<close> the
  object given to \<open>onSubmit\<close>. The test \<open>!feeTier\<close> on a string holds exactly for
  the empty string.
\<close>

definition handleSubmit :: "parsed \<Rightarrow> real \<Rightarrow> string \<Rightarrow> string + SimulationParameters" where
  "handleSubmit parsedOrderSize volatility' feeTier' =
     (case parsedOrderSize of
        NotANumber \<Rightarrow> Inl ''Order size must be a positive number''
      | Number n \<Rightarrow>
          if n \<le> 0 then Inl ''Order size must be a positive number''
          else if volatility' < 0 \<or> volatility' > 100 then
            Inl ''Volatility must be between 0 and 100''
          else if feeTier' = [] then Inl ''Please select a fee tier''
          else Inr \<lparr>orderSize = n, volatility = volatility', feeTier = feeTier'\<rparr>)"

section \<open>The cost model: \<open>handleSimulation\<close> of the dashboard page\<close>

text \<open>
  The local constants of \<open>handleSimulation\<close>, one definition each, under the names
  the source gives them.
\<close>

definition slippage :: "SimulationParameters \<Rightarrow> real" where
  "slippage parameters = (orderSize parameters * volatility parameters) / 10000"

text \<open>
  \<open>let feeRate = 0.001; // Default\<close>, then the chain of three string comparisons.
  A tier that none of them matches keeps the default.
\<close>

definition feeRate :: "SimulationParameters \<Rightarrow> real" where
  "feeRate parameters =
     (if feeTier parameters = ''vip'' then 0.0002
      else if feeTier parameters = ''standard'' then 0.0005
      else if feeTier parameters = ''basic'' then 0.001
      else 0.001)"

definition fees :: "SimulationParameters \<Rightarrow> real" where
  "fees parameters = orderSize parameters * feeRate parameters"

definition marketImpact :: "SimulationParameters \<Rightarrow> real" where
  "marketImpact parameters = (orderSize parameters * volatility parameters) / 5000"

text \<open>
  \<open>Math.min(0.9, parameters.volatility / 100)\<close> and \<open>1 - takerProportion\<close> in
  double arithmetic: the literal and the quotient are rounded, the minimum of two
  doubles is one of them, and the difference is rounded.
\<close>

definition takerProportion :: "SimulationParameters \<Rightarrow> real" where
  "takerProportion parameters = min (fl 0.9) (fl (volatility parameters / 100))"

definition makerProportion :: "SimulationParameters \<Rightarrow> real" where
  "makerProportion parameters = fl (1 - takerProportion parameters)"

text \<open>
  What the run reads from outside: the two readings of \<open>performance.now()\<close>, the
  two draws of \<open>Math.random()\<close>, and the outcome of the health request
  (\<open>None\<close> when \<open>fetch\<close> throws, otherwise \<open>response.ok\<close>).
\<close>

record Environment =
  startTime :: real
  endTime :: real
  random1 :: real
  random2 :: real
  health :: "bool option"

definition processingTime :: "Environment \<Rightarrow> real" where
  "processingTime env = random1 env * 10 + 5"

definition uiUpdateTime :: "Environment \<Rightarrow> real" where
  "uiUpdateTime env = random2 env * 5 + 3"

definition totalTime :: "Environment \<Rightarrow> real" where
  "totalTime env = endTime env - startTime env"

text \<open>The object literal \<open>results\<close>, property by property.\<close>

definition results :: "Environment \<Rightarrow> SimulationParameters \<Rightarrow> jsvalue" where
  "results env parameters =
     JObject
       [(''slippage'', JNumber (slippage parameters)),
        (''fees'', JNumber (fees parameters)),
        (''marketImpact'', JNumber (marketImpact parameters)),
        (''makerTakerProportion'',
           JObject [(''maker'', JNumber (makerProportion parameters)),
                    (''taker'', JNumber (takerProportion parameters))]),
        (''performanceMetrics'',
           JObject [(''processingLatency'', JNumber (processingTime env)),
                    (''uiUpdateLatency'', JNumber (uiUpdateTime env)),
                    (''endToEndLatency'', JNumber (totalTime env))])]"

text \<open>
  The page state that \<open>handleSimulation\<close> writes. The arithmetic of the \<open>try\<close>
  block cannot throw on numbers, so its \<open>catch\<close> branch (fixed fallback figures)
  is never entered; \<open>finally\<close> resets \<open>isLoading\<close>.
\<close>

record PageState =
  simulationResults :: jsvalue
  isLoading :: bool
  isApiAvailable :: bool

definition handleSimulation :: "Environment \<Rightarrow> SimulationParameters \<Rightarrow> PageState \<Rightarrow> PageState" where
  "handleSimulation env parameters st =
     st\<lparr>isApiAvailable := (case health env of None \<Rightarrow> False | Some ok \<Rightarrow> ok),
        simulationResults := results env parameters,
        isLoading := False\<rparr>"

text \<open>
  The page passes \<open>handleSimulation\<close> to the form as \<open>onSubmit\<close>: a submission
  either leaves the page state alone and shows a message, or runs the simulation.
\<close>

definition submitForm ::
  "Environment \<Rightarrow> parsed \<Rightarrow> real \<Rightarrow> string \<Rightarrow> PageState \<Rightarrow> string \<times> PageState" where
  "submitForm env parsedOrderSize volatility' feeTier' st =
     (case handleSubmit parsedOrderSize volatility' feeTier' of
        Inl message \<Rightarrow> (message, st)
      | Inr parameters \<Rightarrow> ([], handleSimulation env parameters st))"

text \<open>
  The cost results inside \<open>results\<close>, as property paths; the remaining
  property, \<open>performanceMetrics\<close>, holds the three timings.
\<close>

definition cost_fields :: "string list list" where
  "cost_fields = [[''slippage''], [''fees''], [''marketImpact''],
     [''makerTakerProportion'', ''maker''], [''makerTakerProportion'', ''taker'']]"

section \<open>Order book aggregation: the effect of \<open>OrderbookVisualization\<close>\<close>

text \<open>
  An entry as it arrives in the \<open>data\<close> property: the element itself may be
  \<open>null\<close> or \<open>undefined\<close> (\<open>None\<close> in the list), and so may each of its fields.
  The source reads them through \<open>entry?.price ?? 0\<close> and \<open>entry?.size ?? 0\<close>.
\<close>

record RawEntry =
  raw_price :: "real option"
  raw_size :: "real option"
  raw_total :: "real option"
  raw_percentage :: "real option"

record RawOrderbookData =
  raw_bids :: "RawEntry option list option"
  raw_asks :: "RawEntry option list option"
  raw_timestamp :: real

text \<open>
  The entries the effect builds (interface \<open>OrderbookEntry\<close>); the fields \<open>size\<close>
  and \<open>total\<close> carry a suffix because HOL has constants of those names.
\<close>

record OrderbookEntry =
  price :: real
  size_e :: real
  total_e :: real
  percentage :: real

record OrderbookData =
  bids :: "OrderbookEntry list"
  asks :: "OrderbookEntry list"
  timestamp :: real

text \<open>
  \<open>xs.slice(0, e)\<close> for an integer \<open>e\<close>: a negative end counts from the end of
  the array, and the result is never longer than the array.
\<close>

definition slice0 :: "int \<Rightarrow> 'a list \<Rightarrow> 'a list" where
  "slice0 e xs = (if e < 0 then take (nat (int (length xs) + e)) xs else take (nat e) xs)"

definition safeEntry :: "RawEntry option \<Rightarrow> OrderbookEntry" where
  "safeEntry entry =
     \<lparr>price = (case entry of None \<Rightarrow> 0
               | Some r \<Rightarrow> (case raw_price r of None \<Rightarrow> 0 | Some p \<Rightarrow> p)),
      size_e = (case entry of None \<Rightarrow> 0
               | Some r \<Rightarrow> (case raw_size r of None \<Rightarrow> 0 | Some z \<Rightarrow> z)),
      total_e = 0,
      percentage = 0\<rparr>"

text \<open>
  \<open>processData\<close> maps over the entries while it adds to the variable
  \<open>runningTotal\<close>, which starts at 0: the recursion carries that variable.
\<close>

fun processData_from :: "real \<Rightarrow> RawEntry option list \<Rightarrow> OrderbookEntry list" where
  "processData_from runningTotal [] = []"
| "processData_from runningTotal (entry # entries) =
     (let runningTotal' = runningTotal + size_e (safeEntry entry)
      in (safeEntry entry)\<lparr>total_e := runningTotal', percentage := 0\<rparr>
           # processData_from runningTotal' entries)"

definition processData :: "RawEntry option list \<Rightarrow> OrderbookEntry list" where
  "processData entries = processData_from 0 entries"

definition maxTotal :: "OrderbookEntry list \<Rightarrow> OrderbookEntry list \<Rightarrow> real" where
  "maxTotal processedBids processedAsks =
     max (if length processedBids > 0
          then total_e (processedBids ! (length processedBids - 1)) else 0)
         (if length processedAsks > 0
          then total_e (processedAsks ! (length processedAsks - 1)) else 0)"

definition calculatePercentages :: "real \<Rightarrow> OrderbookEntry list \<Rightarrow> OrderbookEntry list" where
  "calculatePercentages mt entries =
     map (\<lambda>entry. entry\<lparr>percentage := (if mt > 0 then (total_e entry / mt) * 100 else 0)\<rparr>)
       entries"

text \<open>\<open>xs || []\<close>: an absent side counts as the empty array.\<close>

definition orEmpty :: "'a list option \<Rightarrow> 'a list" where
  "orEmpty xs = (case xs of None \<Rightarrow> [] | Some ys \<Rightarrow> ys)"

definition processedBids :: "RawOrderbookData \<Rightarrow> int \<Rightarrow> OrderbookEntry list" where
  "processedBids d maxDepth = processData (slice0 maxDepth (orEmpty (raw_bids d)))"

definition processedAsks :: "RawOrderbookData \<Rightarrow> int \<Rightarrow> OrderbookEntry list" where
  "processedAsks d maxDepth = processData (slice0 maxDepth (orEmpty (raw_asks d)))"

text \<open>A side whose sizes, after the defaults are filled in, are all non-negative.\<close>

definition nonneg_sizes :: "RawEntry option list \<Rightarrow> bool" where
  "nonneg_sizes entries = list_all (\<lambda>entry. 0 \<le> size_e (safeEntry entry)) entries"

text \<open>
  The value the effect gives to \<open>setProcessedData\<close>. \<open>now\<close> is the reading of
  \<open>Date.now()\<close>, used when the timestamp is 0.
\<close>

definition aggregate :: "real \<Rightarrow> RawOrderbookData \<Rightarrow> int \<Rightarrow> OrderbookData" where
  "aggregate now d maxDepth =
     (let mt = maxTotal (processedBids d maxDepth) (processedAsks d maxDepth)
      in \<lparr>bids = calculatePercentages mt (processedBids d maxDepth),
          asks = calculatePercentages mt (processedAsks d maxDepth),
          timestamp = (if raw_timestamp d = 0 then now else raw_timestamp d)\<rparr>)"

text \<open>
  The effect itself: \<open>if (!data) return;\<close> leaves the state \<open>processedData\<close> as
  it was.
\<close>

definition processEffect ::
  "real \<Rightarrow> RawOrderbookData option \<Rightarrow> int \<Rightarrow> OrderbookData \<Rightarrow> OrderbookData" where
  "processEffect now data maxDepth processedData =
     (case data of None \<Rightarrow> processedData | Some d \<Rightarrow> aggregate now d maxDepth)"

text \<open>
  An aggregated book is itself a well-formed \<open>data\<close> property: every entry is
  present with all four fields.
\<close>

definition asRawEntry :: "OrderbookEntry \<Rightarrow> RawEntry option" where
  "asRawEntry entry =
     Some \<lparr>raw_price = Some (price entry), raw_size = Some (size_e entry),
           raw_total = Some (total_e entry), raw_percentage = Some (percentage entry)\<rparr>"

definition asRawData :: "OrderbookData \<Rightarrow> RawOrderbookData" where
  "asRawData pd =
     \<lparr>raw_bids = Some (map asRawEntry (bids pd)),
      raw_asks = Some (map asRawEntry (asks pd)),
      raw_timestamp = timestamp pd\<rparr>"

section \<open>The spread\<close>

text \<open>
  \<open>OrderbookVisualization.tsx\<close> computes the spread from the first entry of each
  side of \<open>processedData\<close>, with the price 0 standing in for an empty side.
\<close>

definition getFirstAskPrice :: "OrderbookData \<Rightarrow> real" where
  "getFirstAskPrice processedData =
     (if length (asks processedData) > 0 then price (asks processedData ! 0) else 0)"

definition getFirstBidPrice :: "OrderbookData \<Rightarrow> real" where
  "getFirstBidPrice processedData =
     (if length (bids processedData) > 0 then price (bids processedData ! 0) else 0)"

record Spread =
  absolute :: real
  spread_percentage :: real

definition calculateSpread :: "OrderbookData \<Rightarrow> Spread" where
  "calculateSpread processedData =
     (let askPrice = getFirstAskPrice processedData;
          bidPrice = getFirstBidPrice processedData
      in \<lparr>absolute = askPrice - bidPrice,
          spread_percentage =
            (if bidPrice \<noteq> 0 then ((askPrice - bidPrice) / bidPrice) * 100 else 0)\<rparr>)"

text \<open>
  What the spread row shows, before \<open>toFixed\<close> formats it: a number, or the two
  dashes \<open>"--"\<close>. The current component always shows the two numbers of
  \<open>calculateSpread\<close>.
\<close>

datatype cell = Dashes | Shown real

definition spreadRow :: "OrderbookData \<Rightarrow> cell \<times> cell" where
  "spreadRow processedData =
     (Shown (absolute (calculateSpread processedData)),
      Shown (spread_percentage (calculateSpread processedData)))"

text \<open>
  The other copy of the component in the repository has no \<open>calculateSpread\<close>; its
  spread row tests the first entries inline. An entry object is truthy; a price is
  truthy when it is not 0, so \<open>bids[0].price || 1\<close> is the price itself where it
  is reached.
\<close>

definition spreadRow_inline :: "OrderbookData \<Rightarrow> cell \<times> cell" where
  "spreadRow_inline processedData =
     (if length (asks processedData) > 0 \<and> length (bids processedData) > 0
      then Shown (price (asks processedData ! 0) - price (bids processedData ! 0))
      else Dashes,
      if length (asks processedData) > 0 \<and> price (asks processedData ! 0) \<noteq> 0
         \<and> length (bids processedData) > 0 \<and> price (bids processedData ! 0) \<noteq> 0
      then Shown (((price (asks processedData ! 0) - price (bids processedData ! 0))
                    / (if price (bids processedData ! 0) \<noteq> 0
                       then price (bids processedData ! 0) else 1)) * 100)
      else Dashes)"

text \<open>
  The last running total of a side, the way \<open>maxTotal\<close> reads it: the \<open>total\<close> of
  the entry at index \<open>length - 1\<close>, or 0 for an empty side.
\<close>

definition lastTotal :: "OrderbookEntry list \<Rightarrow> real" where
  "lastTotal ys = (if length ys > 0 then total_e (ys ! (length ys - 1)) else 0)"

section \<open>A sample book\<close>

text \<open>
  Four levels a side, as a feed message may deliver them: the second bid is
  \<open>null\<close>, the second ask has no size, and no level has totals or percentages yet.
\<close>

definition example_book :: RawOrderbookData where
  "example_book =
     \<lparr>raw_bids = Some
        [Some \<lparr>raw_price = Some 100, raw_size = Some 2, raw_total = None, raw_percentage = None\<rparr>,
         None,
         Some \<lparr>raw_price = Some 98, raw_size = Some 3, raw_total = None, raw_percentage = None\<rparr>,
         Some \<lparr>raw_price = Some 97, raw_size = Some 1, raw_total = None, raw_percentage = None\<rparr>],
      raw_asks = Some
        [Some \<lparr>raw_price = Some 101, raw_size = Some 1, raw_total = None, raw_percentage = None\<rparr>,
         Some \<lparr>raw_price = Some 102, raw_size = None, raw_total = None, raw_percentage = None\<rparr>,
         Some \<lparr>raw_price = Some 103, raw_size = Some 3, raw_total = None, raw_percentage = None\<rparr>,
         Some \<lparr>raw_price = Some 104, raw_size = Some 9, raw_total = None, raw_percentage = None\<rparr>],
      raw_timestamp = 0\<rparr>"

text \<open>A book whose only level has size 0: one bid at 100, no asks.\<close>

definition zero_book :: RawOrderbookData where
  "zero_book =
     \<lparr>raw_bids = Some
        [Some \<lparr>raw_price = Some 100, raw_size = Some 0, raw_total = None, raw_percentage = None\<rparr>],
      raw_asks = None,
      raw_timestamp = 0\<rparr>"

text \<open>
  A sample run of the page: both clock readings and both random draws fixed, the
  health request failing, and no estimate stored yet.
\<close>

definition example_env :: Environment where
  "example_env = \<lparr>startTime = 0, endTime = 1, random1 = 0, random2 = 0, health = None\<rparr>"

definition example_state :: PageState where
  "example_state =
     \<lparr>simulationResults = JObject [], isLoading = False, isApiAvailable = False\<rparr>"

section \<open>Properties of the cost model\<close>

text \<open>
  The object that \<open>handleSimulation\<close> stores has no \<open>netCost\<close> property.
  For order size 1, volatility 50 and the standard tier, reading \<open>netCost\<close>
  from the stored estimate gives \<open>undefined\<close>, not 0.0155.
\<close>

theorem results_netCost_counterexample:
  "getProp (simulationResults (handleSimulation example_env
      \<lparr>orderSize = 1, volatility = 50, feeTier = ''standard''\<rparr> example_state))
     ''netCost'' = None"
  by (simp add: handleSimulation_def results_def)

text \<open>
  Claim C1, amended. For all parameters the stored estimate has exactly the
  properties \<open>slippage\<close>, \<open>fees\<close>, \<open>marketImpact\<close>,
  \<open>makerTakerProportion\<close> and \<open>performanceMetrics\<close>, and so no \<open>netCost\<close>
  property. The first three hold the values of the three formulas,
  \<open>makerTakerProportion\<close> holds the maker and the taker share, and
  \<open>performanceMetrics\<close> holds the three latencies. For order size 1, volatility 50
  and the standard tier the three cost values are 0.005, 0.0005 and 0.01, and their
  sum is 0.0155.
\<close>

theorem results_cost_breakdown:
  "propertyNames (simulationResults (handleSimulation env p st))
     = [''slippage'', ''fees'', ''marketImpact'', ''makerTakerProportion'',
        ''performanceMetrics'']
   \<and> getProp (simulationResults (handleSimulation env p st)) ''netCost'' = None
   \<and> getProp (simulationResults (handleSimulation env p st)) ''slippage''
        = Some (JNumber (slippage p))
   \<and> getProp (simulationResults (handleSimulation env p st)) ''fees''
        = Some (JNumber (fees p))
   \<and> getProp (simulationResults (handleSimulation env p st)) ''marketImpact''
        = Some (JNumber (marketImpact p))
   \<and> getProp (simulationResults (handleSimulation env p st)) ''makerTakerProportion''
        = Some (JObject [(''maker'', JNumber (makerProportion p)),
                         (''taker'', JNumber (takerProportion p))])
   \<and> getProp (simulationResults (handleSimulation env p st)) ''performanceMetrics''
        = Some (JObject [(''processingLatency'', JNumber (random1 env * 10 + 5)),
                         (''uiUpdateLatency'', JNumber (random2 env * 5 + 3)),
                         (''endToEndLatency'', JNumber (endTime env - startTime env))])
   \<and> slippage \<lparr>orderSize = 1, volatility = 50, feeTier = ''standard''\<rparr> = 0.005
   \<and> fees \<lparr>orderSize = 1, volatility = 50, feeTier = ''standard''\<rparr> = 0.0005
   \<and> marketImpact \<lparr>orderSize = 1, volatility = 50, feeTier = ''standard''\<rparr> = 0.01
   \<and> slippage \<lparr>orderSize = 1, volatility = 50, feeTier = ''standard''\<rparr>
       + fees \<lparr>orderSize = 1, volatility = 50, feeTier = ''standard''\<rparr>
       + marketImpact \<lparr>orderSize = 1, volatility = 50, feeTier = ''standard''\<rparr> = 0.0155"
  by (simp add: handleSimulation_def results_def slippage_def fees_def feeRate_def
        marketImpact_def processingTime_def uiUpdateTime_def totalTime_def)




subsection \<open>Rounding\<close>

lemma rne_of_int [simp]: "rne (of_int n) = n"
  by (simp add: rne_def)

lemma rne_mono: "x \<le> y \<Longrightarrow> rne x \<le> rne y"
proof -
  assume xy: "x \<le> y"
  then have fl: "\<lfloor>x\<rfloor> \<le> \<lfloor>y\<rfloor>" by (rule floor_mono)
  have bx: "\<lfloor>x\<rfloor> \<le> rne x" "rne x \<le> \<lfloor>x\<rfloor> + 1"
    by (simp_all add: rne_def Let_def)
  have by': "\<lfloor>y\<rfloor> \<le> rne y" "rne y \<le> \<lfloor>y\<rfloor> + 1"
    by (simp_all add: rne_def Let_def)
  show ?thesis
  proof (cases "\<lfloor>x\<rfloor> = \<lfloor>y\<rfloor>")
    case True
    with xy have "x - of_int \<lfloor>x\<rfloor> \<le> y - of_int \<lfloor>y\<rfloor>" by simp
    with True show ?thesis by (auto simp: rne_def Let_def)
  next
    case False
    with fl have "\<lfloor>x\<rfloor> + 1 \<le> \<lfloor>y\<rfloor>" by simp
    with bx by' show ?thesis by linarith
  qed
qed

lemma rne_error: "\<bar>of_int (rne x) - x\<bar> \<le> 1 / 2"
proof -
  have "of_int \<lfloor>x\<rfloor> \<le> x" "x < of_int \<lfloor>x\<rfloor> + 1" by linarith+
  then show ?thesis by (auto simp: rne_def Let_def)
qed


lemma qexp_from_lower: "k \<le> qexp_from n k x"
proof (induction n arbitrary: k)
  case 0
  show ?case by simp
next
  case (Suc n)
  from Suc [of "k + 1"] show ?case by simp
qed

lemma qexp_from_upper: "qexp_from n k x \<le> k + int n"
proof (induction n arbitrary: k)
  case 0
  show ?case by simp
next
  case (Suc n)
  from Suc [of "k + 1"] show ?case by simp
qed

lemma qexp_from_found:
  "qexp_from n k x < k + int n \<Longrightarrow> \<bar>x\<bar> < 2 powi (qexp_from n k x + 53)"
proof (induction n arbitrary: k)
  case 0
  then show ?case by simp
next
  case (Suc n)
  show ?case
  proof (cases "\<bar>x\<bar> < 2 powi (k + 53)")
    case True
    then show ?thesis by simp
  next
    case False
    with Suc.prems have "qexp_from n (k + 1) x < (k + 1) + int n" by simp
    from Suc.IH [OF this] False show ?thesis by simp
  qed
qed

lemma qexp_from_passed:
  "k < qexp_from n k x \<Longrightarrow> 2 powi (qexp_from n k x + 52) \<le> \<bar>x\<bar>"
proof (induction n arbitrary: k)
  case 0
  then show ?case by simp
next
  case (Suc n)
  from Suc.prems have nf: "\<not> \<bar>x\<bar> < 2 powi (k + 53)" by (auto split: if_splits)
  then have eq: "qexp_from (Suc n) k x = qexp_from n (k + 1) x" by simp
  show ?case
  proof (cases "k + 1 < qexp_from n (k + 1) x")
    case True
    from Suc.IH [OF this] eq show ?thesis by simp
  next
    case False
    with qexp_from_lower [of "k + 1" n x] have "qexp_from n (k + 1) x = k + 1" by simp
    with eq nf show ?thesis by (simp add: add.commute)
  qed
qed

lemma qexp_from_mono: "\<bar>x\<bar> \<le> \<bar>y\<bar> \<Longrightarrow> qexp_from n k x \<le> qexp_from n k y"
proof (induction n arbitrary: k)
  case 0
  show ?case by simp
next
  case (Suc n)
  from Suc.IH [OF Suc.prems, of "k + 1"] Suc.prems qexp_from_lower [of "k + 1" n y]
  show ?case by auto
qed

lemma qexp_lower: "- 1074 \<le> qexp x"
  unfolding qexp_def by (rule qexp_from_lower)

lemma qexp_upper: "qexp x \<le> 971"
  using qexp_from_upper [of 2045 "- 1074" x] by (simp add: qexp_def)

lemma qexp_mono: "\<bar>x\<bar> \<le> \<bar>y\<bar> \<Longrightarrow> qexp x \<le> qexp y"
  unfolding qexp_def by (rule qexp_from_mono)

lemma qexp_found: "qexp x < 971 \<Longrightarrow> \<bar>x\<bar> < 2 powi (qexp x + 53)"
  using qexp_from_found [of 2045 "- 1074" x] by (simp add: qexp_def)

lemma qexp_passed: "- 1074 < qexp x \<Longrightarrow> 2 powi (qexp x + 52) \<le> \<bar>x\<bar>"
  using qexp_from_passed [of "- 1074" 2045 x] by (simp add: qexp_def)

lemma powi_mono2: "i \<le> j \<Longrightarrow> (2::real) powi i \<le> 2 powi j"
  by (rule power_int_increasing) simp_all

lemma qexp_eqI:
  assumes lo: "- 1074 \<le> k" and hi: "k < 971"
    and ub: "\<bar>x\<bar> < 2 powi (k + 53)"
    and lb: "k = - 1074 \<or> 2 powi (k + 52) \<le> \<bar>x\<bar>"
  shows "qexp x = k"
proof (rule antisym)
  show "qexp x \<le> k"
  proof (rule ccontr)
    assume "\<not> qexp x \<le> k"
    then have gt: "k < qexp x" by simp
    with lo have "- 1074 < qexp x" by simp
    from qexp_passed [OF this] have "2 powi (qexp x + 52) \<le> \<bar>x\<bar>" .
    moreover from gt have "(2::real) powi (k + 53) \<le> 2 powi (qexp x + 52)"
      by (intro powi_mono2) simp
    ultimately show False using ub by linarith
  qed
next
  show "k \<le> qexp x"
  proof (rule ccontr)
    assume "\<not> k \<le> qexp x"
    then have lt: "qexp x < k" by simp
    with hi have "qexp x < 971" by simp
    from qexp_found [OF this] have f: "\<bar>x\<bar> < 2 powi (qexp x + 53)" .
    from lt qexp_lower [of x] have "k \<noteq> - 1074" by simp
    with lb have "2 powi (k + 52) \<le> \<bar>x\<bar>" by simp
    moreover from lt have "(2::real) powi (qexp x + 53) \<le> 2 powi (k + 52)"
      by (intro powi_mono2) simp
    ultimately show False using f by linarith
  qed
qed

lemma fl_eqI:
  assumes "- 1074 \<le> k" and "k < 971"
    and "\<bar>x\<bar> < 2 powi (k + 53)"
    and "k = - 1074 \<or> 2 powi (k + 52) \<le> \<bar>x\<bar>"
  shows "fl x = of_int (rne (x / 2 powi k)) * 2 powi k"
  using qexp_eqI [OF assms] by (simp add: fl_def)

lemma fl_mono:
  assumes x: "0 \<le> x" and xy: "x \<le> y"
  shows "fl x \<le> fl y"
proof -
  have k: "qexp x \<le> qexp y" using x xy by (intro qexp_mono) simp
  have p: "0 < (2::real) powi j" for j by simp
  show ?thesis
  proof (cases "qexp x = qexp y")
    case True
    have "x / 2 powi qexp y \<le> y / 2 powi qexp y"
      using xy by (simp add: divide_right_mono)
    then have "rne (x / 2 powi qexp y) \<le> rne (y / 2 powi qexp y)" by (rule rne_mono)
    then show ?thesis by (simp add: fl_def True)
  next
    case False
    with k have lt: "qexp x < qexp y" by simp
    with qexp_upper [of y] have "qexp x < 971" by simp
    from qexp_found [OF this] x have xu: "x < 2 powi (qexp x + 53)" by simp
    from lt qexp_lower [of x] have "- 1074 < qexp y" by simp
    from qexp_passed [OF this] x xy have yl: "2 powi (qexp y + 52) \<le> y" by simp
    have "x / 2 powi qexp x \<le> 2 powi 53"
      using xu by (simp add: power_int_add field_simps)
    then have "rne (x / 2 powi qexp x) \<le> rne (2 powi 53)" by (rule rne_mono)
    also have "rne (2 powi 53) = 2 ^ 53"
      using rne_of_int [of "2 ^ 53"] by simp
    finally have "fl x \<le> 2 ^ 53 * 2 powi qexp x"
      by (simp add: fl_def)
    also have "\<dots> = 2 powi (qexp x + 53)" by (simp add: power_int_add)
    also have "\<dots> \<le> 2 powi (qexp y + 52)" using lt by (intro powi_mono2) simp
    also have "\<dots> = 2 ^ 52 * 2 powi qexp y" by (simp add: power_int_add)
    also have "\<dots> \<le> fl y"
    proof -
      have "2 powi 52 \<le> y / 2 powi qexp y"
        using yl by (simp add: power_int_add field_simps)
      then have "rne (2 powi 52) \<le> rne (y / 2 powi qexp y)" by (rule rne_mono)
      moreover have "rne (2 powi 52) = 2 ^ 52"
        using rne_of_int [of "2 ^ 52"] by simp
      ultimately show ?thesis by (simp add: fl_def)
    qed
    finally show ?thesis .
  qed
qed

lemma fl_error: "\<bar>fl x - x\<bar> \<le> 2 powi qexp x / 2"
proof -
  have "\<bar>of_int (rne (x / 2 powi qexp x)) - x / 2 powi qexp x\<bar> \<le> 1 / 2"
    by (rule rne_error)
  then have "\<bar>of_int (rne (x / 2 powi qexp x)) - x / 2 powi qexp x\<bar> * 2 powi qexp x
      \<le> 1 / 2 * 2 powi qexp x"
    by (intro mult_right_mono) simp_all
  moreover have "\<bar>of_int (rne (x / 2 powi qexp x)) - x / 2 powi qexp x\<bar> * 2 powi qexp x
      = \<bar>fl x - x\<bar>"
  proof -
    have "\<bar>of_int (rne (x / 2 powi qexp x)) - x / 2 powi qexp x\<bar> * 2 powi qexp x
      = \<bar>(of_int (rne (x / 2 powi qexp x)) - x / 2 powi qexp x) * 2 powi qexp x\<bar>"
      by (simp add: abs_mult)
    also have "(of_int (rne (x / 2 powi qexp x)) - x / 2 powi qexp x) * 2 powi qexp x
      = fl x - x" by (simp add: fl_def left_diff_distrib)
    finally show ?thesis .
  qed
  ultimately show ?thesis by simp
qed

lemma fl_0: "fl 0 = 0"
  by (simp add: fl_def rne_def)

lemma fl_1: "fl 1 = 1"
  using fl_eqI [of "- 52" 1] rne_of_int [of "2 ^ 52"] by (simp add: power_int_minus)

lemma fl_nine_tenths: "fl 0.9 = 0.90000000000000002220446049250313080847263336181640625"
  using fl_eqI [of "- 53" "0.9"] by (simp add: power_int_minus rne_def Let_def)

lemma fl_maker_floor:
  "fl (1 - fl 0.9) = 0.09999999999999997779553950749686919152736663818359375"
proof -
  have "fl 0.09999999999999997779553950749686919152736663818359375
      = 0.09999999999999997779553950749686919152736663818359375"
    using fl_eqI [of "- 56" "0.09999999999999997779553950749686919152736663818359375"]
    by (simp add: power_int_minus rne_def Let_def)
  then show ?thesis by (simp add: fl_nine_tenths)
qed

lemma fl_below_1: "fl (1 - 1 / 2 ^ 54) = 1"
  using fl_eqI [of "- 53" "1 - 1 / 2 ^ 54"] by (simp add: power_int_minus rne_def Let_def)

lemma fl_above_1: "fl (1 + 1 / 2 ^ 54) = 1"
  using fl_eqI [of "- 52" "1 + 1 / 2 ^ 54"] by (simp add: power_int_minus rne_def Let_def)

lemma qexp_below_1:
  assumes "\<bar>x\<bar> < 1"
  shows "qexp x \<le> - 53"
proof (rule ccontr)
  assume "\<not> qexp x \<le> - 53"
  then have g: "- 52 \<le> qexp x" by simp
  then have "- 1074 < qexp x" by simp
  from qexp_passed [OF this] have "2 powi (qexp x + 52) \<le> \<bar>x\<bar>" .
  moreover from g have "(2::real) powi 0 \<le> 2 powi (qexp x + 52)"
    by (intro powi_mono2) simp
  ultimately show False using assms by simp
qed

lemma fl_error_below_1:
  assumes "0 \<le> x" and "x \<le> 1"
  shows "\<bar>fl x - x\<bar> \<le> 1 / 2 ^ 54"
proof (cases "x = 1")
  case True
  then show ?thesis by (simp add: fl_1)
next
  case False
  with assms have "\<bar>x\<bar> < 1" by simp
  from qexp_below_1 [OF this] have "(2::real) powi qexp x \<le> 2 powi (- 53)"
    by (rule powi_mono2)
  then have "2 powi qexp x / 2 \<le> (1::real) / 2 ^ 54"
    by (simp add: power_int_minus field_simps)
  with fl_error [of x] show ?thesis by linarith
qed

lemma fl_near_1:
  assumes "\<bar>s - 1\<bar> \<le> 1 / 2 ^ 54"
  shows "fl s = 1"
proof (rule antisym)
  have small: "(1::real) / 2 ^ 54 \<le> 1" by simp
  have "s \<le> 1 + 1 / 2 ^ 54" using assms by linarith
  moreover have "0 \<le> s" using assms small by linarith
  ultimately have "fl s \<le> fl (1 + 1 / 2 ^ 54)" by (intro fl_mono)
  then show "fl s \<le> 1" by (simp only: fl_above_1)
next
  have "1 - 1 / 2 ^ 54 \<le> s" using assms by linarith
  then have "fl (1 - 1 / 2 ^ 54) \<le> fl s" by (intro fl_mono) simp_all
  then show "1 \<le> fl s" by (simp only: fl_below_1)
qed

lemma taker_bounds:
  assumes "0 \<le> volatility p"
  shows "0 \<le> takerProportion p" and "takerProportion p \<le> fl 0.9"
proof -
  have "fl 0 \<le> fl (volatility p / 100)" using assms by (intro fl_mono) simp_all
  then show "0 \<le> takerProportion p"
    by (simp add: takerProportion_def fl_0 fl_nine_tenths)
  show "takerProportion p \<le> fl 0.9" by (simp add: takerProportion_def)
qed

lemma taker_mono:
  assumes "0 \<le> volatility p" and "volatility p \<le> volatility q"
  shows "takerProportion p \<le> takerProportion q"
proof -
  have "fl (volatility p / 100) \<le> fl (volatility q / 100)"
    using assms by (intro fl_mono) simp_all
  then show ?thesis by (simp add: takerProportion_def min_def)
qed

lemma taker_capped:
  assumes "90 \<le> volatility p"
  shows "takerProportion p = fl 0.9"
proof -
  have "fl 0.9 \<le> fl (volatility p / 100)" using assms by (intro fl_mono) simp_all
  then show ?thesis by (simp add: takerProportion_def min_def)
qed

lemma maker_bounds:
  assumes "0 \<le> volatility p"
  shows "1 - fl 0.9 \<le> makerProportion p" and "makerProportion p \<le> 1"
proof -
  note t = taker_bounds [OF assms]
  have fx: "fl (1 - fl 0.9) = 1 - fl 0.9"
    by (simp add: fl_maker_floor) (simp add: fl_nine_tenths)
  have "fl (1 - fl 0.9) \<le> fl (1 - takerProportion p)"
    using t by (intro fl_mono) (simp_all add: fl_nine_tenths)
  then show "1 - fl 0.9 \<le> makerProportion p"
    by (simp only: makerProportion_def fx)
  have "fl (1 - takerProportion p) \<le> fl 1"
    using t by (intro fl_mono) (simp_all add: fl_nine_tenths)
  then show "makerProportion p \<le> 1" by (simp add: makerProportion_def fl_1)
qed

lemma maker_plus_taker:
  assumes "0 \<le> volatility p"
  shows "\<bar>makerProportion p + takerProportion p - 1\<bar> \<le> 1 / 2 ^ 54"
proof -
  note t = taker_bounds [OF assms]
  have "0 \<le> 1 - takerProportion p" "1 - takerProportion p \<le> 1"
    using t by (simp_all add: fl_nine_tenths)
  from fl_error_below_1 [OF this] show ?thesis
    by (simp add: makerProportion_def algebra_simps)
qed


text \<open>
  At volatility 100 the stored maker share is below 0.1: the double written
  \<open>0.9\<close> lies above nine tenths, and one minus it is stored exactly.
\<close>

theorem makerProportion_below_tenth_counterexample:
  "makerProportion \<lparr>orderSize = 1, volatility = 100, feeTier = ''standard''\<rparr> < 0.1
   \<and> makerProportion \<lparr>orderSize = 1, volatility = 100, feeTier = ''standard''\<rparr> = 0.09999999999999997779553950749686919152736663818359375"
proof -
  have "fl (100 / 100) = 1" by (simp add: fl_1)
  then have "takerProportion \<lparr>orderSize = 1, volatility = 100, feeTier = ''standard''\<rparr> = fl 0.9"
    by (simp add: takerProportion_def fl_nine_tenths)
  then show ?thesis by (simp add: makerProportion_def fl_maker_floor)
qed

text \<open>
  Claim C5, amended. For a volatility between 0 and 100 the taker share is the smaller
  of the double \<open>0.9\<close> (0.90000000000000002220...) and the double quotient
  \<open>volatility / 100\<close>, and the maker share is the double difference of 1 and the
  taker share. Added in double arithmetic the two give 1, and their exact sum is
  within \<open>1 / 2 ^ 54\<close> of 1. The taker share lies between 0 and the double
  \<open>0.9\<close> and grows with the volatility. The maker share is at most 1 and never
  below 0.09999999999999997779..., which is one minus the double \<open>0.9\<close> and
  lies just under 0.1; it has that value for every volatility from 90 up, 100
  included. Volatility 0 gives taker 0 and maker 1. Both shares are stored under
  \<open>makerTakerProportion\<close>.
\<close>

theorem maker_taker_split:
  assumes "0 \<le> volatility p" and "volatility p \<le> 100"
  shows "takerProportion p = min (fl 0.9) (fl (volatility p / 100))
   \<and> makerProportion p = fl (1 - takerProportion p)
   \<and> fl 0.9 = 0.90000000000000002220446049250313080847263336181640625
   \<and> fl (makerProportion p + takerProportion p) = 1
   \<and> \<bar>makerProportion p + takerProportion p - 1\<bar> \<le> 1 / 2 ^ 54
   \<and> 0 \<le> takerProportion p \<and> takerProportion p \<le> fl 0.9
   \<and> 0.09999999999999997779553950749686919152736663818359375 \<le> makerProportion p
   \<and> makerProportion p \<le> 1
   \<and> (volatility p \<le> volatility q \<longrightarrow> takerProportion p \<le> takerProportion q)
   \<and> (volatility p = 0 \<longrightarrow> takerProportion p = 0 \<and> makerProportion p = 1)
   \<and> (90 \<le> volatility p \<longrightarrow>
        takerProportion p = fl 0.9
        \<and> makerProportion p = 0.09999999999999997779553950749686919152736663818359375)
   \<and> getPath (simulationResults (handleSimulation env p st))
          [''makerTakerProportion'', ''taker''] = Some (JNumber (takerProportion p))
   \<and> getPath (simulationResults (handleSimulation env p st))
          [''makerTakerProportion'', ''maker''] = Some (JNumber (makerProportion p))"
proof -
  note v = assms(1)
  have a: "takerProportion p = min (fl 0.9) (fl (volatility p / 100))"
    by (simp add: takerProportion_def)
  have b: "makerProportion p = fl (1 - takerProportion p)"
    by (simp add: makerProportion_def)
  note c = fl_nine_tenths
  note e = maker_plus_taker [OF v]
  have d: "fl (makerProportion p + takerProportion p) = 1"
    using e by (rule fl_near_1)
  note f = taker_bounds [OF v]
  have g: "0.09999999999999997779553950749686919152736663818359375 \<le> makerProportion p"
    using maker_bounds(1) [OF v] by (simp add: fl_nine_tenths)
  note h = maker_bounds(2) [OF v]
  have i: "volatility p \<le> volatility q \<longrightarrow> takerProportion p \<le> takerProportion q"
    using taker_mono [OF v] by blast
  have j: "volatility p = 0 \<longrightarrow> takerProportion p = 0 \<and> makerProportion p = 1"
    by (simp add: takerProportion_def makerProportion_def fl_0 fl_1 fl_nine_tenths)
  have k: "90 \<le> volatility p \<longrightarrow>
        takerProportion p = fl 0.9
        \<and> makerProportion p = 0.09999999999999997779553950749686919152736663818359375"
    using taker_capped [of p] by (auto simp: makerProportion_def fl_maker_floor)
  have l: "getPath (simulationResults (handleSimulation env p st))
          [''makerTakerProportion'', ''taker''] = Some (JNumber (takerProportion p))"
    and m: "getPath (simulationResults (handleSimulation env p st))
          [''makerTakerProportion'', ''maker''] = Some (JNumber (makerProportion p))"
    by (simp_all add: handleSimulation_def results_def)
  from a b c d e f g h i j k l m show ?thesis by blast
qed

theorem maker_taker_split_witness:
  "takerProportion \<lparr>orderSize = 1, volatility = 100, feeTier = ''standard''\<rparr> = 0.90000000000000002220446049250313080847263336181640625
   \<and> makerProportion \<lparr>orderSize = 1, volatility = 100, feeTier = ''standard''\<rparr> = 0.09999999999999997779553950749686919152736663818359375
   \<and> fl (makerProportion \<lparr>orderSize = 1, volatility = 100, feeTier = ''standard''\<rparr> + takerProportion \<lparr>orderSize = 1, volatility = 100, feeTier = ''standard''\<rparr>) = 1
   \<and> takerProportion \<lparr>orderSize = 1, volatility = 0, feeTier = ''standard''\<rparr> = 0
   \<and> makerProportion \<lparr>orderSize = 1, volatility = 0, feeTier = ''standard''\<rparr> = 1
   \<and> takerProportion \<lparr>orderSize = 1, volatility = 0, feeTier = ''standard''\<rparr> \<le> takerProportion \<lparr>orderSize = 1, volatility = 100, feeTier = ''standard''\<rparr>"
proof -
  have h100: "0 \<le> volatility \<lparr>orderSize = 1, volatility = 100, feeTier = ''standard''\<rparr>" "volatility \<lparr>orderSize = 1, volatility = 100, feeTier = ''standard''\<rparr> \<le> 100" "90 \<le> volatility \<lparr>orderSize = 1, volatility = 100, feeTier = ''standard''\<rparr>"
    by simp_all
  have h0: "0 \<le> volatility \<lparr>orderSize = 1, volatility = 0, feeTier = ''standard''\<rparr>" "volatility \<lparr>orderSize = 1, volatility = 0, feeTier = ''standard''\<rparr> \<le> 100" "volatility \<lparr>orderSize = 1, volatility = 0, feeTier = ''standard''\<rparr> = 0"
    "volatility \<lparr>orderSize = 1, volatility = 0, feeTier = ''standard''\<rparr> \<le> volatility \<lparr>orderSize = 1, volatility = 100, feeTier = ''standard''\<rparr>"
    by simp_all
  from maker_taker_split [OF h100(1) h100(2)] h100(3)
  have hi: "takerProportion \<lparr>orderSize = 1, volatility = 100, feeTier = ''standard''\<rparr> = 0.90000000000000002220446049250313080847263336181640625
   \<and> makerProportion \<lparr>orderSize = 1, volatility = 100, feeTier = ''standard''\<rparr> = 0.09999999999999997779553950749686919152736663818359375
   \<and> fl (makerProportion \<lparr>orderSize = 1, volatility = 100, feeTier = ''standard''\<rparr> + takerProportion \<lparr>orderSize = 1, volatility = 100, feeTier = ''standard''\<rparr>) = 1"
    by metis
  from maker_taker_split [OF h0(1) h0(2), where q = "\<lparr>orderSize = 1, volatility = 100, feeTier = ''standard''\<rparr>"] h0(3) h0(4)
  have lo: "takerProportion \<lparr>orderSize = 1, volatility = 0, feeTier = ''standard''\<rparr> = 0
   \<and> makerProportion \<lparr>orderSize = 1, volatility = 0, feeTier = ''standard''\<rparr> = 1
   \<and> takerProportion \<lparr>orderSize = 1, volatility = 0, feeTier = ''standard''\<rparr> \<le> takerProportion \<lparr>orderSize = 1, volatility = 100, feeTier = ''standard''\<rparr>"
    by blast
  from hi lo show ?thesis by blast
qed


section \<open>Properties of the parameter form\<close>

text \<open>
  An unrecognised fee tier is not among the rejected cases: with order size 1 and
  volatility 50 the tier \<open>unknown\<close> is submitted, the simulation runs, and the
  stored estimate has the fee 0.001.
\<close>

theorem handleSubmit_unknown_tier_counterexample:
  "submitForm example_env (Number 1) 50 ''unknown'' example_state
     = ([], handleSimulation example_env
              \<lparr>orderSize = 1, volatility = 50, feeTier = ''unknown''\<rparr> example_state)
   \<and> getProp (simulationResults
         (snd (submitForm example_env (Number 1) 50 ''unknown'' example_state))) ''fees''
     = Some (JNumber 0.001)"
  by (simp add: submitForm_def handleSubmit_def handleSimulation_def results_def fees_def
        feeRate_def)

text \<open>
  Claim C8, amended. An order size that is not a number or is at most 0 is rejected
  with \<open>Order size must be a positive number\<close>; otherwise a volatility outside
  0 to 100 is rejected with \<open>Volatility must be between 0 and 100\<close>; otherwise an
  empty fee tier is rejected with \<open>Please select a fee tier\<close>. The three messages
  differ, and a rejected submission leaves the page state, and so the stored estimate,
  untouched. Every other submission, whatever non-empty tier it names, reaches the
  cost model.
\<close>

theorem handleSubmit_rejections:
  "(po = NotANumber \<or> (\<exists>n. po = Number n \<and> n \<le> 0) \<longrightarrow>
      handleSubmit po v t = Inl ''Order size must be a positive number''
      \<and> submitForm env po v t st = (''Order size must be a positive number'', st))
   \<and> (po = Number n \<and> 0 < n \<and> (v < 0 \<or> 100 < v) \<longrightarrow>
      handleSubmit po v t = Inl ''Volatility must be between 0 and 100''
      \<and> submitForm env po v t st = (''Volatility must be between 0 and 100'', st))
   \<and> (po = Number n \<and> 0 < n \<and> 0 \<le> v \<and> v \<le> 100 \<and> t = [] \<longrightarrow>
      handleSubmit po v t = Inl ''Please select a fee tier''
      \<and> submitForm env po v t st = (''Please select a fee tier'', st))
   \<and> (po = Number n \<and> 0 < n \<and> 0 \<le> v \<and> v \<le> 100 \<and> t \<noteq> [] \<longrightarrow>
      handleSubmit po v t = Inr \<lparr>orderSize = n, volatility = v, feeTier = t\<rparr>
      \<and> submitForm env po v t st
           = ([], handleSimulation env \<lparr>orderSize = n, volatility = v, feeTier = t\<rparr> st))
   \<and> distinct [''Order size must be a positive number'',
                ''Volatility must be between 0 and 100'', ''Please select a fee tier'']"
  by (auto simp: submitForm_def handleSubmit_def)

theorem handleSubmit_rejections_witness:
  "submitForm example_env (Number (- 1)) 50 ''standard'' example_state
      = (''Order size must be a positive number'', example_state)
   \<and> submitForm example_env NotANumber 50 ''standard'' example_state
      = (''Order size must be a positive number'', example_state)
   \<and> submitForm example_env (Number 1) 150 ''standard'' example_state
      = (''Volatility must be between 0 and 100'', example_state)
   \<and> submitForm example_env (Number 1) 50 [] example_state
      = (''Please select a fee tier'', example_state)
   \<and> submitForm example_env (Number 1) 50 ''standard'' example_state
      = ([], handleSimulation example_env
               \<lparr>orderSize = 1, volatility = 50, feeTier = ''standard''\<rparr> example_state)"
  using handleSubmit_rejections
          [where po = "Number (- 1)" and v = 50 and t = "''standard''"
             and env = example_env and st = example_state]
        handleSubmit_rejections
          [where po = NotANumber and v = 50 and t = "''standard''"
             and env = example_env and st = example_state]
        handleSubmit_rejections
          [where po = "Number 1" and n = 1 and v = 150 and t = "''standard''"
             and env = example_env and st = example_state]
        handleSubmit_rejections
          [where po = "Number 1" and n = 1 and v = 50 and t = "[]"
             and env = example_env and st = example_state]
        handleSubmit_rejections
          [where po = "Number 1" and n = 1 and v = 50 and t = "''standard''"
             and env = example_env and st = example_state]
  by simp

section \<open>Timings do not reach the cost results\<close>

text \<open>
  Claim C9. Two runs on the same parameters store the same slippage, fees, market
  impact and maker and taker shares, whatever the clock readings, the random draws,
  the outcome of the health request and the previous page state of each run: each of
  the five values is a function of the parameters alone.
\<close>

theorem cost_fields_independent_of_timings:
  "map (getPath (simulationResults (handleSimulation env1 p st1))) cost_fields
     = map (getPath (simulationResults (handleSimulation env2 p st2))) cost_fields
   \<and> map (getPath (simulationResults (handleSimulation env1 p st1))) cost_fields
     = [Some (JNumber (slippage p)), Some (JNumber (fees p)), Some (JNumber (marketImpact p)),
        Some (JNumber (makerProportion p)), Some (JNumber (takerProportion p))]"
  by (simp add: handleSimulation_def results_def cost_fields_def)

section \<open>Properties of the aggregation\<close>

subsection \<open>Truncation and the running total\<close>

lemma length_processData_from: "length (processData_from r xs) = length xs"
  by (induction xs arbitrary: r) (simp_all add: Let_def)

lemma price_processData_from:
  "map price (processData_from r xs) = map (\<lambda>e. price (safeEntry e)) xs"
  by (induction xs arbitrary: r) (simp_all add: Let_def)

lemma size_processData_from:
  "map size_e (processData_from r xs) = map (\<lambda>e. size_e (safeEntry e)) xs"
  by (induction xs arbitrary: r) (simp_all add: Let_def)

lemma total_processData_from_step:
  "i < length xs \<Longrightarrow>
     total_e (processData_from r xs ! i)
       = (if i = 0 then r else total_e (processData_from r xs ! (i - 1)))
         + size_e (processData_from r xs ! i)"
proof (induction xs arbitrary: r i)
  case Nil
  then show ?case by simp
next
  case (Cons x xs)
  show ?case
  proof (cases i)
    case 0
    then show ?thesis by (simp add: Let_def)
  next
    case (Suc j)
    with Cons.prems have j: "j < length xs" by simp
    show ?thesis
    proof (cases j)
      case 0
      with Suc j show ?thesis
        using Cons.IH [of 0 "r + size_e (safeEntry x)"] by (simp add: Let_def)
    next
      case (Suc m)
      with \<open>i = Suc j\<close> j show ?thesis
        using Cons.IH [of j "r + size_e (safeEntry x)"] by (simp add: Let_def)
    qed
  qed
qed

lemma total_processData_from_sum:
  "i < length xs \<Longrightarrow>
     total_e (processData_from r xs ! i)
       = r + sum_list (map (\<lambda>e. size_e (safeEntry e)) (take (Suc i) xs))"
proof (induction xs arbitrary: r i)
  case Nil
  then show ?case by simp
next
  case (Cons x xs)
  then show ?case by (cases i) (simp_all add: Let_def)
qed

lemma total_processData_from_lower:
  "nonneg_sizes xs \<Longrightarrow> e \<in> set (processData_from r xs) \<Longrightarrow> r \<le> total_e e"
proof (induction xs arbitrary: r)
  case Nil
  then show ?case by simp
next
  case (Cons x xs)
  from Cons.prems(1) have x: "0 \<le> size_e (safeEntry x)" and xs: "nonneg_sizes xs"
    by (simp_all add: nonneg_sizes_def)
  from Cons.prems(2) show ?case
    using Cons.IH [OF xs, where r = "r + size_e (safeEntry x)"] x
    by (auto simp: Let_def)
qed

lemma sorted_total_processData_from:
  "nonneg_sizes xs \<Longrightarrow> sorted (map total_e (processData_from r xs))"
proof (induction xs arbitrary: r)
  case Nil
  then show ?case by simp
next
  case (Cons x xs)
  from Cons.prems have x: "0 \<le> size_e (safeEntry x)" and xs: "nonneg_sizes xs"
    by (simp_all add: nonneg_sizes_def)
  have "\<forall>e \<in> set (processData_from (r + size_e (safeEntry x)) xs).
          r + size_e (safeEntry x) \<le> total_e e"
    using total_processData_from_lower [OF xs] by blast
  with Cons.IH [OF xs] show ?case
    by (simp add: Let_def)
qed

lemma nonneg_sizes_slice0: "nonneg_sizes xs \<Longrightarrow> nonneg_sizes (slice0 k xs)"
  by (auto simp: nonneg_sizes_def slice0_def list_all_iff dest: in_set_takeD)

lemma length_calculatePercentages: "length (calculatePercentages mt ys) = length ys"
  by (simp add: calculatePercentages_def)

lemma total_calculatePercentages: "map total_e (calculatePercentages mt ys) = map total_e ys"
  by (simp add: calculatePercentages_def)

lemma size_calculatePercentages: "map size_e (calculatePercentages mt ys) = map size_e ys"
  by (simp add: calculatePercentages_def)

lemma price_calculatePercentages: "map price (calculatePercentages mt ys) = map price ys"
  by (simp add: calculatePercentages_def)

lemma nth_calculatePercentages:
  "i < length ys \<Longrightarrow>
     total_e (calculatePercentages mt ys ! i) = total_e (ys ! i)
     \<and> size_e (calculatePercentages mt ys ! i) = size_e (ys ! i)"
  by (simp add: calculatePercentages_def)

lemma processData_from_Nil_iff: "processData_from r xs = [] \<longleftrightarrow> xs = []"
  by (cases xs) (simp_all add: Let_def)

lemma last_total_processData_from:
  "xs \<noteq> [] \<Longrightarrow>
     total_e (last (processData_from r xs)) = r + sum_list (map (\<lambda>e. size_e (safeEntry e)) xs)"
proof -
  assume ne: "xs \<noteq> []"
  then have len: "length xs - 1 < length xs" by (cases xs) simp_all
  from ne have "processData_from r xs \<noteq> []"
    using length_processData_from [of r xs] by (cases xs) auto
  then have "last (processData_from r xs) = processData_from r xs ! (length xs - 1)"
    by (simp add: last_conv_nth length_processData_from)
  moreover from ne have "Suc (length xs - 1) = length xs" by (cases xs) simp_all
  ultimately show ?thesis
    using total_processData_from_sum [OF len, of r] by simp
qed

lemma side_truncated:
  fixes k :: int and mt :: real and xs :: "RawEntry option list"
  assumes "0 \<le> k"
  defines "out \<equiv> calculatePercentages mt (processData (slice0 k xs))"
  shows "int (length out) \<le> k"
    and "map price out = map (\<lambda>e. price (safeEntry e)) (take (nat k) xs)"
    and "map size_e out = map (\<lambda>e. size_e (safeEntry e)) (take (nat k) xs)"
    and "\<forall>i < length out. total_e (out ! i)
           = (if i = 0 then 0 else total_e (out ! (i - 1))) + size_e (out ! i)"
    and "out \<noteq> [] \<longrightarrow> total_e (last out) = sum_list (map size_e out)"
    and "nonneg_sizes xs \<longrightarrow> sorted (map total_e out)"
proof -
  let ?ys = "take (nat k) xs"
  have sl: "slice0 k xs = ?ys" using assms(1) by (simp add: slice0_def)
  have len: "length out = length ?ys"
    by (simp add: out_def sl length_calculatePercentages processData_def
          length_processData_from del: length_take)
  show "int (length out) \<le> k" using assms(1) by (simp add: len)
  show "map price out = map (\<lambda>e. price (safeEntry e)) ?ys"
    by (simp add: out_def sl price_calculatePercentages processData_def price_processData_from)
  show sz: "map size_e out = map (\<lambda>e. size_e (safeEntry e)) ?ys"
    by (simp add: out_def sl size_calculatePercentages processData_def size_processData_from)
  show "\<forall>i < length out. total_e (out ! i)
           = (if i = 0 then 0 else total_e (out ! (i - 1))) + size_e (out ! i)"
  proof (intro allI impI)
    fix i assume i: "i < length out"
    then have i': "i < length ?ys" by (simp only: len)
    then have i'': "i < length (processData_from 0 ?ys)"
      by (simp only: length_processData_from)
    have im: "i - 1 < length (processData_from 0 ?ys)" using i'' by arith
    show "total_e (out ! i) = (if i = 0 then 0 else total_e (out ! (i - 1))) + size_e (out ! i)"
      using total_processData_from_step [OF i', of 0]
            nth_calculatePercentages [OF i'', of mt] nth_calculatePercentages [OF im, of mt]
      by (simp add: out_def sl processData_def del: length_take)
  qed
  show "out \<noteq> [] \<longrightarrow> total_e (last out) = sum_list (map size_e out)"
  proof
    assume ne: "out \<noteq> []"
    then have ys: "?ys \<noteq> []" using len by auto
    have "total_e (last out) = last (map total_e out)" using ne by (simp add: last_map)
    also have "map total_e out = map total_e (processData_from 0 ?ys)"
      by (simp add: out_def sl total_calculatePercentages processData_def)
    also have "last \<dots> = total_e (last (processData_from 0 ?ys))"
      using ys by (simp only: last_map processData_from_Nil_iff not_False_eq_True)
    also have "\<dots> = sum_list (map (\<lambda>e. size_e (safeEntry e)) ?ys)"
      using last_total_processData_from [OF ys, of 0] by simp
    finally show "total_e (last out) = sum_list (map size_e out)" by (simp only: sz)
  qed
  show "nonneg_sizes xs \<longrightarrow> sorted (map total_e out)"
  proof
    assume "nonneg_sizes xs"
    then have "nonneg_sizes (slice0 k xs)" by (rule nonneg_sizes_slice0)
    then show "sorted (map total_e out)"
      by (simp add: out_def total_calculatePercentages processData_def
            sorted_total_processData_from)
  qed
qed

lemma processEffect_cases:
  "processEffect now None k processedData = processedData"
  "processEffect now (Some d) k processedData = aggregate now d k"
  by (simp_all add: processEffect_def)

lemma bids_aggregate:
  "bids (aggregate now d k)
     = calculatePercentages (maxTotal (processedBids d k) (processedAsks d k))
         (processData (slice0 k (orEmpty (raw_bids d))))"
  by (simp add: aggregate_def Let_def processedBids_def)

lemma asks_aggregate:
  "asks (aggregate now d k)
     = calculatePercentages (maxTotal (processedBids d k) (processedAsks d k))
         (processData (slice0 k (orEmpty (raw_asks d))))"
  by (simp add: aggregate_def Let_def processedAsks_def)

text \<open>
  A negative depth is outside what follows: \<open>slice(0, -1)\<close> keeps all entries but
  the last, so the depth is assumed to be at least 0 wherever it bounds the output.
\<close>

lemma slice0_negative_example: "slice0 (- 1) [a, b, c] = [a, b]"
  by (simp add: slice0_def)

text \<open>
  The sample book at depth 3: the fourth level of each side is cut off before the
  totals are formed, so the normalisation constant is 5, not 14.
\<close>

lemma example_aggregate:
  "aggregate 7 example_book 3 =
     \<lparr>bids = [\<lparr>price = 100, size_e = 2, total_e = 2, percentage = 40\<rparr>,
              \<lparr>price = 0, size_e = 0, total_e = 2, percentage = 40\<rparr>,
              \<lparr>price = 98, size_e = 3, total_e = 5, percentage = 100\<rparr>],
      asks = [\<lparr>price = 101, size_e = 1, total_e = 1, percentage = 20\<rparr>,
              \<lparr>price = 102, size_e = 0, total_e = 1, percentage = 20\<rparr>,
              \<lparr>price = 103, size_e = 3, total_e = 4, percentage = 80\<rparr>],
      timestamp = 7\<rparr>"
  by (simp add: aggregate_def example_book_def processedBids_def processedAsks_def
        processData_def slice0_def orEmpty_def safeEntry_def maxTotal_def
        calculatePercentages_def Let_def)

lemma example_maxTotal:
  "maxTotal (processedBids example_book 3) (processedAsks example_book 3) = 5"
  by (simp add: example_book_def processedBids_def processedAsks_def processData_def
        slice0_def orEmpty_def safeEntry_def maxTotal_def Let_def)

lemma example_aggregate_depth0:
  "aggregate 7 example_book 0 = \<lparr>bids = [], asks = [], timestamp = 7\<rparr>"
  by (simp add: aggregate_def example_book_def processedBids_def processedAsks_def
        processData_def slice0_def orEmpty_def maxTotal_def calculatePercentages_def Let_def)

lemma example_nonneg:
  "nonneg_sizes (orEmpty (raw_bids example_book))"
  "nonneg_sizes (orEmpty (raw_asks example_book))"
  by (simp_all add: nonneg_sizes_def example_book_def orEmpty_def safeEntry_def)

text \<open>
  Claim C2. For a depth \<open>maxDepth\<close> of at least 0, each side of the aggregated book
  has at most \<open>maxDepth\<close> entries, and they are the first \<open>maxDepth\<close> entries of
  the input side with the defaults filled in. The totals are computed on that window:
  each total is the total before it (0 before the first) plus the entry's own size, so
  the last total is the sum of the sizes in the window, and the totals of a side with
  non-negative sizes never decrease.
\<close>

theorem aggregate_truncates_then_sums:
  assumes "0 \<le> maxDepth"
  shows "int (length (bids (aggregate now d maxDepth))) \<le> maxDepth
    \<and> int (length (asks (aggregate now d maxDepth))) \<le> maxDepth
    \<and> map price (bids (aggregate now d maxDepth))
         = map (\<lambda>e. price (safeEntry e)) (take (nat maxDepth) (orEmpty (raw_bids d)))
    \<and> map price (asks (aggregate now d maxDepth))
         = map (\<lambda>e. price (safeEntry e)) (take (nat maxDepth) (orEmpty (raw_asks d)))
    \<and> map size_e (bids (aggregate now d maxDepth))
         = map (\<lambda>e. size_e (safeEntry e)) (take (nat maxDepth) (orEmpty (raw_bids d)))
    \<and> map size_e (asks (aggregate now d maxDepth))
         = map (\<lambda>e. size_e (safeEntry e)) (take (nat maxDepth) (orEmpty (raw_asks d)))
    \<and> (\<forall>i < length (bids (aggregate now d maxDepth)).
          total_e (bids (aggregate now d maxDepth) ! i)
            = (if i = 0 then 0 else total_e (bids (aggregate now d maxDepth) ! (i - 1)))
              + size_e (bids (aggregate now d maxDepth) ! i))
    \<and> (\<forall>i < length (asks (aggregate now d maxDepth)).
          total_e (asks (aggregate now d maxDepth) ! i)
            = (if i = 0 then 0 else total_e (asks (aggregate now d maxDepth) ! (i - 1)))
              + size_e (asks (aggregate now d maxDepth) ! i))
    \<and> (bids (aggregate now d maxDepth) \<noteq> [] \<longrightarrow>
          total_e (last (bids (aggregate now d maxDepth)))
            = sum_list (map size_e (bids (aggregate now d maxDepth))))
    \<and> (asks (aggregate now d maxDepth) \<noteq> [] \<longrightarrow>
          total_e (last (asks (aggregate now d maxDepth)))
            = sum_list (map size_e (asks (aggregate now d maxDepth))))
    \<and> (nonneg_sizes (orEmpty (raw_bids d)) \<longrightarrow>
          sorted (map total_e (bids (aggregate now d maxDepth))))
    \<and> (nonneg_sizes (orEmpty (raw_asks d)) \<longrightarrow>
          sorted (map total_e (asks (aggregate now d maxDepth))))"
  unfolding bids_aggregate asks_aggregate
  using side_truncated [OF assms,
          where mt = "maxTotal (processedBids d maxDepth) (processedAsks d maxDepth)"
            and xs = "orEmpty (raw_bids d)"]
        side_truncated [OF assms,
          where mt = "maxTotal (processedBids d maxDepth) (processedAsks d maxDepth)"
            and xs = "orEmpty (raw_asks d)"]
  by blast

theorem aggregate_truncates_then_sums_witness:
  "int (length (bids (aggregate 7 example_book 3))) \<le> 3
   \<and> int (length (asks (aggregate 7 example_book 3))) \<le> 3
   \<and> map size_e (bids (aggregate 7 example_book 3)) = [2, 0, 3]
   \<and> map total_e (bids (aggregate 7 example_book 3)) = [2, 2, 5]
   \<and> map total_e (asks (aggregate 7 example_book 3)) = [1, 1, 4]
   \<and> total_e (last (bids (aggregate 7 example_book 3)))
        = sum_list (map size_e (bids (aggregate 7 example_book 3)))
   \<and> sorted (map total_e (bids (aggregate 7 example_book 3)))"
proof -
  have k: "(0::int) \<le> 3" by simp
  have ne: "bids (aggregate 7 example_book 3) \<noteq> []" by (simp add: example_aggregate)
  from aggregate_truncates_then_sums [OF k, of 7 example_book] ne example_nonneg(1)
  have "int (length (bids (aggregate 7 example_book 3))) \<le> 3
   \<and> int (length (asks (aggregate 7 example_book 3))) \<le> 3
   \<and> total_e (last (bids (aggregate 7 example_book 3)))
        = sum_list (map size_e (bids (aggregate 7 example_book 3)))
   \<and> sorted (map total_e (bids (aggregate 7 example_book 3)))"
    by blast
  moreover have "map size_e (bids (aggregate 7 example_book 3)) = [2, 0, 3]
   \<and> map total_e (bids (aggregate 7 example_book 3)) = [2, 2, 5]
   \<and> map total_e (asks (aggregate 7 example_book 3)) = [1, 1, 4]"
    by (simp add: example_aggregate)
  ultimately show ?thesis by blast
qed

subsection \<open>Percentages\<close>

lemma sorted_le_last:
  fixes zs :: "real list"
  assumes "sorted zs" and "z \<in> set zs"
  shows "z \<le> last zs"
proof -
  from assms(2) obtain i where i: "i < length zs" and z: "zs ! i = z"
    by (auto simp: in_set_conv_nth)
  then have ne: "zs \<noteq> []" by auto
  have "zs ! i \<le> zs ! (length zs - 1)"
    using assms(1) i by (intro sorted_nth_mono) auto
  with z ne show ?thesis by (simp add: last_conv_nth)
qed

lemma maxTotal_lastTotal: "maxTotal bs as = max (lastTotal bs) (lastTotal as)"
  by (simp add: maxTotal_def lastTotal_def)

lemma lastTotal_last: "ys \<noteq> [] \<Longrightarrow> lastTotal ys = total_e (last ys)"
  by (simp add: lastTotal_def last_conv_nth)

lemma processData_member_bounds:
  assumes "nonneg_sizes xs" and "e \<in> set (processData xs)"
  shows "0 \<le> total_e e" and "total_e e \<le> lastTotal (processData xs)"
proof -
  show "0 \<le> total_e e"
    using total_processData_from_lower [OF assms(1), of e 0] assms(2)
    by (simp add: processData_def)
  from assms(2) have ne: "processData xs \<noteq> []" by auto
  have "sorted (map total_e (processData xs))"
    using sorted_total_processData_from [OF assms(1), of 0] by (simp add: processData_def)
  moreover have "total_e e \<in> set (map total_e (processData xs))"
    using assms(2) by simp
  ultimately have "total_e e \<le> last (map total_e (processData xs))"
    by (rule sorted_le_last)
  with ne show "total_e e \<le> lastTotal (processData xs)"
    by (simp add: last_map lastTotal_last)
qed

lemma lastTotal_nonneg: "nonneg_sizes xs \<Longrightarrow> 0 \<le> lastTotal (processData xs)"
proof (cases "processData xs = []")
  case True
  then show ?thesis by (simp add: lastTotal_def)
next
  case False
  assume nn: "nonneg_sizes xs"
  from False have "last (processData xs) \<in> set (processData xs)" by simp
  from processData_member_bounds(1) [OF nn this] False show ?thesis
    by (simp add: lastTotal_last)
qed

lemma lastTotal_attained:
  "0 < lastTotal ys \<Longrightarrow> \<exists>e \<in> set ys. total_e e = lastTotal ys"
  by (cases "ys = []") (auto simp: lastTotal_def last_conv_nth intro!: bexI [of _ "last ys"])

lemma calculatePercentages_member:
  "e \<in> set (calculatePercentages mt ys) \<Longrightarrow>
     \<exists>y \<in> set ys. total_e e = total_e y
        \<and> percentage e = (if mt > 0 then (total_e y / mt) * 100 else 0)"
  by (auto simp: calculatePercentages_def)

lemma calculatePercentages_image:
  "y \<in> set ys \<Longrightarrow>
     y\<lparr>percentage := (if mt > 0 then (total_e y / mt) * 100 else 0)\<rparr>
       \<in> set (calculatePercentages mt ys)"
  unfolding calculatePercentages_def set_map by (rule imageI)

lemma side_percentages:
  assumes nn: "nonneg_sizes xs" and le: "lastTotal (processData xs) \<le> mt"
    and e: "e \<in> set (calculatePercentages mt (processData xs))"
  shows "0 \<le> percentage e" and "percentage e \<le> 100" and "total_e e \<le> mt"
    and "0 < mt \<longrightarrow> total_e e = mt \<longrightarrow> percentage e = 100"
    and "mt = 0 \<longrightarrow> percentage e = 0"
proof -
  from calculatePercentages_member [OF e] obtain y where y: "y \<in> set (processData xs)"
    and t: "total_e e = total_e y"
    and p: "percentage e = (if mt > 0 then (total_e y / mt) * 100 else 0)"
    by blast
  from processData_member_bounds [OF nn y] le have b: "0 \<le> total_e y" "total_e y \<le> mt"
    by simp_all
  show "0 \<le> percentage e" using b p by simp
  show "percentage e \<le> 100" using b p by (simp add: field_simps)
  show "total_e e \<le> mt" using b t by simp
  show "0 < mt \<longrightarrow> total_e e = mt \<longrightarrow> percentage e = 100" using t p by simp
  show "mt = 0 \<longrightarrow> percentage e = 0" using p by simp
qed

lemma processData_Nil: "processData [] = []"
  by (simp add: processData_def)

lemma slice0_Nil: "slice0 k [] = []"
  by (simp add: slice0_def)

text \<open>
  Claim C3. For a book whose sizes are non-negative, the normalisation constant
  \<open>maxTotal\<close> is at least 0, every percentage on both sides lies between 0 and 100
  and no total exceeds \<open>maxTotal\<close>. When \<open>maxTotal\<close> is positive some entry has
  that total, and every entry with that total has percentage 100. When \<open>maxTotal\<close>
  is 0 every percentage is 0. An empty or absent side gives an empty side:
  \<open>aggregate\<close> has a result for every book, the guards of the source being its
  branches.
\<close>

theorem aggregate_percentages_bounded:
  assumes "nonneg_sizes (orEmpty (raw_bids d))" and "nonneg_sizes (orEmpty (raw_asks d))"
  shows "0 \<le> maxTotal (processedBids d k) (processedAsks d k)
   \<and> (\<forall>e \<in> set (bids (aggregate now d k)) \<union> set (asks (aggregate now d k)).
         0 \<le> percentage e \<and> percentage e \<le> 100
         \<and> total_e e \<le> maxTotal (processedBids d k) (processedAsks d k))
   \<and> (0 < maxTotal (processedBids d k) (processedAsks d k) \<longrightarrow>
         (\<exists>e \<in> set (bids (aggregate now d k)) \<union> set (asks (aggregate now d k)).
            total_e e = maxTotal (processedBids d k) (processedAsks d k))
         \<and> (\<forall>e \<in> set (bids (aggregate now d k)) \<union> set (asks (aggregate now d k)).
              total_e e = maxTotal (processedBids d k) (processedAsks d k)
                \<longrightarrow> percentage e = 100))
   \<and> (maxTotal (processedBids d k) (processedAsks d k) = 0 \<longrightarrow>
         (\<forall>e \<in> set (bids (aggregate now d k)) \<union> set (asks (aggregate now d k)).
            percentage e = 0))
   \<and> (orEmpty (raw_bids d) = [] \<longrightarrow> bids (aggregate now d k) = [])
   \<and> (orEmpty (raw_asks d) = [] \<longrightarrow> asks (aggregate now d k) = [])"
proof -
  let ?xb = "slice0 k (orEmpty (raw_bids d))" and ?xa = "slice0 k (orEmpty (raw_asks d))"
  let ?mt = "maxTotal (processedBids d k) (processedAsks d k)"
  let ?B = "bids (aggregate now d k)" and ?A = "asks (aggregate now d k)"
  have nb: "nonneg_sizes ?xb" and na: "nonneg_sizes ?xa"
    using assms by (simp_all add: nonneg_sizes_slice0)
  have pb: "processedBids d k = processData ?xb" and pa: "processedAsks d k = processData ?xa"
    by (simp_all add: processedBids_def processedAsks_def)
  have mt: "?mt = max (lastTotal (processData ?xb)) (lastTotal (processData ?xa))"
    by (simp add: maxTotal_lastTotal pb pa)
  have B: "?B = calculatePercentages ?mt (processData ?xb)"
    and A: "?A = calculatePercentages ?mt (processData ?xa)"
    by (simp_all add: bids_aggregate asks_aggregate)
  have leb: "lastTotal (processData ?xb) \<le> ?mt" and lea: "lastTotal (processData ?xa) \<le> ?mt"
    by (simp_all add: mt)
  have c1: "0 \<le> ?mt"
    using lastTotal_nonneg [OF nb] leb by linarith
  have eB: "0 \<le> percentage e \<and> percentage e \<le> 100 \<and> total_e e \<le> ?mt
       \<and> (0 < ?mt \<longrightarrow> total_e e = ?mt \<longrightarrow> percentage e = 100)
       \<and> (?mt = 0 \<longrightarrow> percentage e = 0)" if "e \<in> set ?B" for e
    using side_percentages [OF nb leb, of e] that unfolding B [symmetric] by blast
  have eA: "0 \<le> percentage e \<and> percentage e \<le> 100 \<and> total_e e \<le> ?mt
       \<and> (0 < ?mt \<longrightarrow> total_e e = ?mt \<longrightarrow> percentage e = 100)
       \<and> (?mt = 0 \<longrightarrow> percentage e = 0)" if "e \<in> set ?A" for e
    using side_percentages [OF na lea, of e] that unfolding A [symmetric] by blast
  have c2: "\<forall>e \<in> set ?B \<union> set ?A.
         0 \<le> percentage e \<and> percentage e \<le> 100 \<and> total_e e \<le> ?mt"
    using eB eA by blast
  have c3b: "\<forall>e \<in> set ?B \<union> set ?A. total_e e = ?mt \<longrightarrow> percentage e = 100" if "0 < ?mt"
    using eB eA that by blast
  have c3a: "\<exists>e \<in> set ?B \<union> set ?A. total_e e = ?mt" if pos: "0 < ?mt"
  proof (cases "lastTotal (processData ?xa) \<le> lastTotal (processData ?xb)")
    case True
    then have m: "?mt = lastTotal (processData ?xb)" by (simp add: mt)
    with pos lastTotal_attained [of "processData ?xb"]
    obtain y where y: "y \<in> set (processData ?xb)" and ty: "total_e y = ?mt" by auto
    from calculatePercentages_image [OF y, of ?mt]
    have "y\<lparr>percentage := (if ?mt > 0 then (total_e y / ?mt) * 100 else 0)\<rparr> \<in> set ?B"
      unfolding B [symmetric] .
    moreover have "total_e (y\<lparr>percentage := (if ?mt > 0 then (total_e y / ?mt) * 100 else 0)\<rparr>) = ?mt"
      using ty by simp
    ultimately show ?thesis by blast
  next
    case False
    then have m: "?mt = lastTotal (processData ?xa)" by (simp add: mt)
    with pos lastTotal_attained [of "processData ?xa"]
    obtain y where y: "y \<in> set (processData ?xa)" and ty: "total_e y = ?mt" by auto
    from calculatePercentages_image [OF y, of ?mt]
    have "y\<lparr>percentage := (if ?mt > 0 then (total_e y / ?mt) * 100 else 0)\<rparr> \<in> set ?A"
      unfolding A [symmetric] .
    moreover have "total_e (y\<lparr>percentage := (if ?mt > 0 then (total_e y / ?mt) * 100 else 0)\<rparr>) = ?mt"
      using ty by simp
    ultimately show ?thesis by blast
  qed
  have c4: "\<forall>e \<in> set ?B \<union> set ?A. percentage e = 0" if "?mt = 0"
    using eB eA that by blast
  have c5: "orEmpty (raw_bids d) = [] \<longrightarrow> ?B = []"
    by (simp add: bids_aggregate slice0_Nil processData_Nil calculatePercentages_def)
  have c6: "orEmpty (raw_asks d) = [] \<longrightarrow> ?A = []"
    by (simp add: asks_aggregate slice0_Nil processData_Nil calculatePercentages_def)
  from c1 c2 c3a c3b c4 c5 c6 show ?thesis by blast
qed

theorem aggregate_percentages_bounded_witness:
  "maxTotal (processedBids example_book 3) (processedAsks example_book 3) = 5
   \<and> map percentage (bids (aggregate 7 example_book 3)) = [40, 40, 100]
   \<and> map percentage (asks (aggregate 7 example_book 3)) = [20, 20, 80]
   \<and> 0 \<le> percentage (hd (asks (aggregate 7 example_book 3)))
   \<and> percentage (hd (asks (aggregate 7 example_book 3))) \<le> 100
   \<and> percentage (last (bids (aggregate 7 example_book 3))) = 100
   \<and> bids (aggregate 7 \<lparr>raw_bids = None, raw_asks = Some [], raw_timestamp = 0\<rparr> 10) = []
   \<and> asks (aggregate 7 \<lparr>raw_bids = None, raw_asks = Some [], raw_timestamp = 0\<rparr> 10) = []
   \<and> percentage (hd (bids (aggregate 7 zero_book 10))) = 0"
proof -
  have a: "hd (asks (aggregate 7 example_book 3))
             \<in> set (bids (aggregate 7 example_book 3)) \<union> set (asks (aggregate 7 example_book 3))"
    and b: "last (bids (aggregate 7 example_book 3))
             \<in> set (bids (aggregate 7 example_book 3)) \<union> set (asks (aggregate 7 example_book 3))"
    and t: "total_e (last (bids (aggregate 7 example_book 3))) = 5"
    by (simp_all add: example_aggregate)
  from aggregate_percentages_bounded [OF example_nonneg, of 3 7] a b t example_maxTotal
  have "0 \<le> percentage (hd (asks (aggregate 7 example_book 3)))
   \<and> percentage (hd (asks (aggregate 7 example_book 3))) \<le> 100
   \<and> percentage (last (bids (aggregate 7 example_book 3))) = 100"
    by auto
  moreover have "map percentage (bids (aggregate 7 example_book 3)) = [40, 40, 100]
   \<and> map percentage (asks (aggregate 7 example_book 3)) = [20, 20, 80]"
    by (simp add: example_aggregate)
  moreover have e: "nonneg_sizes (orEmpty (raw_bids
        \<lparr>raw_bids = None, raw_asks = Some [], raw_timestamp = 0\<rparr>))"
      "nonneg_sizes (orEmpty (raw_asks
        \<lparr>raw_bids = None, raw_asks = Some [], raw_timestamp = 0\<rparr>))"
    by (simp_all add: nonneg_sizes_def orEmpty_def)
  have "bids (aggregate 7 \<lparr>raw_bids = None, raw_asks = Some [], raw_timestamp = 0\<rparr> 10) = []
   \<and> asks (aggregate 7 \<lparr>raw_bids = None, raw_asks = Some [], raw_timestamp = 0\<rparr> 10) = []"
    using aggregate_percentages_bounded [OF e, of 10 7] by (simp add: orEmpty_def)
  moreover have z: "nonneg_sizes (orEmpty (raw_bids zero_book))"
      "nonneg_sizes (orEmpty (raw_asks zero_book))"
    by (simp_all add: nonneg_sizes_def orEmpty_def zero_book_def safeEntry_def)
  have zm: "maxTotal (processedBids zero_book 10) (processedAsks zero_book 10) = 0"
    and zn: "bids (aggregate 7 zero_book 10) \<noteq> []"
    by (simp_all add: aggregate_def zero_book_def processedBids_def processedAsks_def
        processData_def slice0_def orEmpty_def safeEntry_def maxTotal_def
        calculatePercentages_def Let_def)
  from zn have "hd (bids (aggregate 7 zero_book 10))
      \<in> set (bids (aggregate 7 zero_book 10)) \<union> set (asks (aggregate 7 zero_book 10))"
    by simp
  with aggregate_percentages_bounded [OF z, of 10 7] zm
  have "percentage (hd (bids (aggregate 7 zero_book 10))) = 0" by blast
  ultimately show ?thesis using example_maxTotal by blast
qed

subsection \<open>Aggregating an aggregated book\<close>

lemma safeEntry_asRawEntry:
  "safeEntry (asRawEntry e) = \<lparr>price = price e, size_e = size_e e, total_e = 0, percentage = 0\<rparr>"
  by (simp add: safeEntry_def asRawEntry_def)

lemma processData_from_cong:
  "map safeEntry xs = map safeEntry ys \<Longrightarrow> processData_from r xs = processData_from r ys"
proof (induction xs arbitrary: ys r)
  case Nil
  then show ?case by simp
next
  case (Cons x xs)
  then obtain y ys' where ys: "ys = y # ys'" by (cases ys) auto
  with Cons.prems have "safeEntry x = safeEntry y" and "map safeEntry xs = map safeEntry ys'"
    by simp_all
  with Cons.IH [of ys'] ys show ?case by (simp add: Let_def)
qed

lemma safeEntry_processData_from:
  "map safeEntry (map asRawEntry (processData_from r xs)) = map safeEntry xs"
proof (induction xs arbitrary: r)
  case Nil
  show ?case by simp
next
  case (Cons x xs)
  have "safeEntry (asRawEntry ((safeEntry x)\<lparr>total_e := r + size_e (safeEntry x),
           percentage := 0\<rparr>)) = safeEntry x"
    by (simp add: safeEntry_def asRawEntry_def)
  with Cons.IH [of "r + size_e (safeEntry x)"] show ?case
    by (simp add: Let_def)
qed

lemma safeEntry_output:
  "map safeEntry (map asRawEntry (calculatePercentages mt (processData_from r xs)))
     = map safeEntry xs"
proof -
  have "map safeEntry (map asRawEntry (calculatePercentages mt ys))
          = map safeEntry (map asRawEntry ys)" for ys
    by (simp add: calculatePercentages_def safeEntry_asRawEntry)
  then show ?thesis by (simp only: safeEntry_processData_from)
qed

lemma input_totals_ignored:
  "processData (map (map_option (\<lambda>r. r\<lparr>raw_total := t, raw_percentage := q\<rparr>)) xs)
     = processData xs"
proof -
  have "safeEntry (map_option (\<lambda>r. r\<lparr>raw_total := t, raw_percentage := q\<rparr>) x) = safeEntry x"
    for x by (cases x) (simp_all add: safeEntry_def)
  then have "map safeEntry (map (map_option (\<lambda>r. r\<lparr>raw_total := t, raw_percentage := q\<rparr>)) xs)
      = map safeEntry xs" by simp
  then show ?thesis unfolding processData_def by (rule processData_from_cong)
qed

lemma reprocess_side:
  assumes "0 \<le> k"
  shows "processData (slice0 k (map asRawEntry (calculatePercentages mt (processData (slice0 k xs)))))
           = processData (slice0 k xs)"
proof -
  let ?out = "calculatePercentages mt (processData (slice0 k xs))"
  have "length ?out \<le> nat k"
    using assms by (simp add: slice0_def length_calculatePercentages processData_def
        length_processData_from)
  then have "slice0 k (map asRawEntry ?out) = map asRawEntry ?out"
    using assms by (simp add: slice0_def)
  moreover have "map safeEntry (map asRawEntry ?out) = map safeEntry (slice0 k xs)"
    unfolding processData_def by (rule safeEntry_output)
  then have "processData_from 0 (map asRawEntry ?out) = processData_from 0 (slice0 k xs)"
    by (rule processData_from_cong)
  ultimately show ?thesis
    by (simp only: processData_def)
qed

lemma bids_aggregate_processed:
  "bids (aggregate now d k)
     = calculatePercentages (maxTotal (processedBids d k) (processedAsks d k))
         (processedBids d k)"
  by (simp add: aggregate_def Let_def)

lemma asks_aggregate_processed:
  "asks (aggregate now d k)
     = calculatePercentages (maxTotal (processedBids d k) (processedAsks d k))
         (processedAsks d k)"
  by (simp add: aggregate_def Let_def)

text \<open>
  Claim C10. For a depth of at least 0, aggregating the output of an aggregation again
  with the same depth gives the same bids and the same asks, whatever the clock says.
  The totals and percentages an input entry arrives with play no part: replacing them
  leaves \<open>processData\<close> unchanged.
\<close>

theorem aggregate_idempotent:
  assumes "0 \<le> maxDepth"
  shows "bids (aggregate now' (asRawData (aggregate now d maxDepth)) maxDepth)
           = bids (aggregate now d maxDepth)
   \<and> asks (aggregate now' (asRawData (aggregate now d maxDepth)) maxDepth)
           = asks (aggregate now d maxDepth)
   \<and> processData (map (map_option (\<lambda>r. r\<lparr>raw_total := t, raw_percentage := q\<rparr>)) xs)
           = processData xs"
proof -
  let ?agg = "aggregate now d maxDepth"
  have b: "processedBids (asRawData ?agg) maxDepth = processedBids d maxDepth"
    using reprocess_side [OF assms]
    by (simp add: processedBids_def asRawData_def orEmpty_def bids_aggregate)
  have a: "processedAsks (asRawData ?agg) maxDepth = processedAsks d maxDepth"
    using reprocess_side [OF assms]
    by (simp add: processedAsks_def asRawData_def orEmpty_def asks_aggregate)
  show ?thesis
    by (simp only: bids_aggregate_processed asks_aggregate_processed a b input_totals_ignored)
qed

theorem aggregate_idempotent_witness:
  "bids (aggregate 9 (asRawData (aggregate 7 example_book 3)) 3)
     = [\<lparr>price = 100, size_e = 2, total_e = 2, percentage = 40\<rparr>,
        \<lparr>price = 0, size_e = 0, total_e = 2, percentage = 40\<rparr>,
        \<lparr>price = 98, size_e = 3, total_e = 5, percentage = 100\<rparr>]
   \<and> asks (aggregate 9 (asRawData (aggregate 7 example_book 3)) 3)
     = [\<lparr>price = 101, size_e = 1, total_e = 1, percentage = 20\<rparr>,
        \<lparr>price = 102, size_e = 0, total_e = 1, percentage = 20\<rparr>,
        \<lparr>price = 103, size_e = 3, total_e = 4, percentage = 80\<rparr>]"
proof -
  have k: "(0::int) \<le> 3" by simp
  from aggregate_idempotent [OF k, of 9 7 example_book] show ?thesis
    by (simp add: example_aggregate)
qed

section \<open>Properties of the spread\<close>

text \<open>
  With no bids and one ask at 50010 the current component shows the spread 50010 and
  0 percent, computed from the stand-in bid price 0; for the empty book it shows the
  spread 0. Neither is shown as unavailable.
\<close>

theorem calculateSpread_empty_side_counterexample:
  "spreadRow (aggregate 7
      \<lparr>raw_bids = Some [],
       raw_asks = Some [Some \<lparr>raw_price = Some 50010, raw_size = Some 1,
                              raw_total = None, raw_percentage = None\<rparr>],
       raw_timestamp = 0\<rparr> 10)
     = (Shown 50010, Shown 0)
   \<and> spreadRow (aggregate 7 \<lparr>raw_bids = Some [], raw_asks = Some [], raw_timestamp = 0\<rparr> 10)
     = (Shown 0, Shown 0)"
  by (simp add: spreadRow_def calculateSpread_def getFirstAskPrice_def getFirstBidPrice_def
        aggregate_def processedBids_def processedAsks_def processData_def slice0_def
        orEmpty_def safeEntry_def maxTotal_def calculatePercentages_def Let_def)

text \<open>
  Claim C7, amended. When both sides are non-empty the absolute spread is the first
  ask price minus the first bid price, and the percentage is 100 times the spread over
  the first bid price, or 0 when that price is 0. When a side is empty
  \<open>calculateSpread\<close> takes its price as 0 and the spread row still shows two
  numbers: with no bids the first ask price and 0 percent, with no asks the negated
  first bid price. Only the other copy of the component shows dashes for the absolute
  spread, exactly when a side is empty.
\<close>

theorem calculateSpread_sides:
  "(asks pd \<noteq> [] \<and> bids pd \<noteq> [] \<longrightarrow>
      absolute (calculateSpread pd) = price (hd (asks pd)) - price (hd (bids pd))
      \<and> spread_percentage (calculateSpread pd)
          = (if price (hd (bids pd)) \<noteq> 0
             then 100 * absolute (calculateSpread pd) / price (hd (bids pd)) else 0))
   \<and> (bids pd = [] \<longrightarrow>
      getFirstBidPrice pd = 0
      \<and> absolute (calculateSpread pd) = getFirstAskPrice pd
      \<and> spread_percentage (calculateSpread pd) = 0)
   \<and> (asks pd = [] \<longrightarrow>
      getFirstAskPrice pd = 0
      \<and> absolute (calculateSpread pd) = - getFirstBidPrice pd
      \<and> spread_percentage (calculateSpread pd) = (if getFirstBidPrice pd \<noteq> 0 then - 100 else 0))
   \<and> spreadRow pd
        = (Shown (absolute (calculateSpread pd)), Shown (spread_percentage (calculateSpread pd)))
   \<and> (fst (spreadRow_inline pd) = Dashes \<longleftrightarrow> asks pd = [] \<or> bids pd = [])
   \<and> (asks pd \<noteq> [] \<and> bids pd \<noteq> [] \<longrightarrow>
      fst (spreadRow_inline pd) = Shown (price (hd (asks pd)) - price (hd (bids pd))))"
  by (cases "asks pd"; cases "bids pd")
     (simp_all add: calculateSpread_def getFirstAskPrice_def getFirstBidPrice_def Let_def
        spreadRow_def spreadRow_inline_def)

theorem calculateSpread_sides_witness:
  "absolute (calculateSpread (aggregate 7 example_book 3)) = 1
   \<and> spread_percentage (calculateSpread (aggregate 7 example_book 3)) = 1
   \<and> fst (spreadRow_inline (aggregate 7 example_book 3)) = Shown 1
   \<and> absolute (calculateSpread (aggregate 7 example_book 0)) = 0
   \<and> spread_percentage (calculateSpread (aggregate 7 example_book 0)) = 0
   \<and> fst (spreadRow_inline (aggregate 7 example_book 0)) = Dashes"
proof -
  have "absolute (calculateSpread (aggregate 7 example_book 3)) = 1
   \<and> spread_percentage (calculateSpread (aggregate 7 example_book 3)) = 1
   \<and> fst (spreadRow_inline (aggregate 7 example_book 3)) = Shown 1"
    using calculateSpread_sides [of "aggregate 7 example_book 3"]
    by (simp add: example_aggregate)
  moreover have "absolute (calculateSpread (aggregate 7 example_book 0)) = 0
   \<and> spread_percentage (calculateSpread (aggregate 7 example_book 0)) = 0
   \<and> fst (spreadRow_inline (aggregate 7 example_book 0)) = Dashes"
    using calculateSpread_sides [of "aggregate 7 example_book 0"]
    by (simp add: example_aggregate_depth0 getFirstAskPrice_def getFirstBidPrice_def)
  ultimately show ?thesis by blast
qed

end
